theory Spec2Isabelle
  imports Main "HOL-Library.AList" "HOL-Library.Sublist"
begin

section \<open>The resilient HTTP client (customFetch / makeRequest)\<close>

text \<open>
  The repository holds two revisions of the same module (\<^verbatim>\<open>src/unnamed/part_001\<close> and
  \<^verbatim>\<open>src/unnamed/part_002\<close>). Their \<^verbatim>\<open>makeRequest\<close> functions share the header loop, the
  \<^verbatim>\<open>end\<close> handler and the \<^verbatim>\<open>error\<close> handler line for line; they differ in where the default
  retry numbers come from, in the TLS options handed to the socket layer, and in whether the
  body is buffered as bytes (part_001) or as an already decoded string (part_002). The
  embedding below follows the shared text and takes the differing parts as parameters.

  What belongs to Node and not to the repository is a parameter as well:
  \<^item> the socket layer (\<^verbatim>\<open>protocol.request\<close>): a function from the request and the state of
    the world to the outcome of the attempt and the next state of the world. The outcome is
    that the dispatch throws, or the list of the events that the socket layer fires on the
    request and its response, in the order they fire: \<^verbatim>\<open>error\<close>, \<^verbatim>\<open>timeout\<close> and the \<^verbatim>\<open>end\<close> of a
    complete response. The list may be empty (a connection lost in the middle of the body
    fires none of the three) and may hold more than one event (after a \<^verbatim>\<open>timeout\<close> before any
    response, the \<^verbatim>\<open>req.destroy()\<close> of the timeout handler makes the socket layer fire an
    \<^verbatim>\<open>error\<close> event of its own);
  \<^item> \<^verbatim>\<open>new URL(input, base).toString()\<close>, which throws on input it cannot parse;
  \<^item> \<^verbatim>\<open>Buffer.toString("utf8")\<close> and \<^verbatim>\<open>JSON.parse\<close>.

  JavaScript numbers are modelled as \<open>int\<close> (the counters and limits of the source are
  integers), strings as \<open>string\<close>, a plain object as an association list in insertion
  order. The TLS options of the dispatch, the one-shot warning latch of part_001 and the
  debug log of the Cloudflare Access headers of part_002 play no part in the retry and
  redirect logic and are left out.

  Every handler that fires runs, and each may start a chain of further requests. In the
  source the chains that one attempt starts run concurrently; the embedding runs them one
  after the other, in the order their handlers fired, and takes the first settlement in that
  order. So the events of a call are in order within one chain, and the order between the
  events of two chains is a convention.
\<close>

subsection \<open>Data\<close>

text \<open>\<^verbatim>\<open>interface NodeError extends Error { code?: string }\<close>\<close>

datatype js_error = JsError (err_name: string) (err_message: string) (err_code: "string option")

text \<open>
  A property of an options object that the source spreads: the key may be missing, or
  there with the value \<^verbatim>\<open>undefined\<close>, or there with a value. The spread
  \<^verbatim>\<open>{...customFetchOptions, ...fetchOptions}\<close> tells the first two apart.
\<close>

datatype 'a js_prop = Absent | Undefined | Present 'a

text \<open>
  \<^verbatim>\<open>RequestInit & RetryOptions\<close>, with the fields the module reads. Headers are a plain
  object, as the source's cast to \<^verbatim>\<open>Record<string, unknown>\<close> takes them, with string values.
\<close>

record request_options =
  opt_method :: "string option"
  opt_headers :: "(string \<times> string) list js_prop"
  opt_body :: "string option"
  opt_maxRetries :: "int option"
  opt_retryDelay :: "int option"
  opt_timeout :: "int option"
  opt_followRedirects :: "bool option"
  opt_maxRedirects :: "int option"

text \<open>
  \<^verbatim>\<open>customFetchOptions.headers\<close> and \<^verbatim>\<open>DEFAULT_RETRY_OPTIONS\<close>: environment-dependent in
  part_001, the literals 3, 1000, 10000 in part_002.
\<close>

record client_defaults =
  default_headers :: "(string \<times> string) list"
  default_maxRetries :: int
  default_retryDelay :: int
  default_timeout :: int

definition DEFAULT_FOLLOW_REDIRECTS :: bool where
  "DEFAULT_FOLLOW_REDIRECTS = True"

definition DEFAULT_MAX_REDIRECTS :: int where
  "DEFAULT_MAX_REDIRECTS = 5"

text \<open>What \<^verbatim>\<open>protocol.request(url, {method, headers, timeout, ...})\<close> and \<^verbatim>\<open>req.write\<close> receive.\<close>

record wire_request =
  req_url :: string
  req_method :: string
  req_headers :: "(string \<times> string) list"
  req_timeout :: int
  req_body :: "string option"

text \<open>A value of \<^verbatim>\<open>res.headers\<close>: \<^verbatim>\<open>string | string[] | undefined\<close>.\<close>

datatype header_value = HString string | HArray "string list" | HUndefined

text \<open>The \<^verbatim>\<open>IncomingMessage\<close> at its \<^verbatim>\<open>end\<close> event, with the chunks its \<^verbatim>\<open>data\<close> events delivered.\<close>

record incoming_message =
  statusCode :: "int option"
  statusMessage :: "string option"
  res_headers :: "(string \<times> header_value) list"
  chunks :: "string list"

text \<open>
  \<^verbatim>\<open>CustomResponse\<close>. Its accessors are closures over the constant \<^verbatim>\<open>responseBody\<close>; the
  record holds the captured value and the accessors are functions of the record.
\<close>

record custom_response =
  ok :: bool
  status :: int
  statusText :: string
  headers :: "(string \<times> string) list"
  responseBody :: string

text \<open>The events for which \<^verbatim>\<open>makeRequest\<close> registers a handler.\<close>

datatype request_event = ErrorEvent js_error | TimeoutEvent | ResponseEnd incoming_message

text \<open>
  What \<^verbatim>\<open>protocol.request\<close>, \<^verbatim>\<open>req.write\<close> and \<^verbatim>\<open>req.end\<close> do with one attempt: they throw, inside
  the executor of the promise, or the request goes out and the events fire.
\<close>

datatype outcome = Threw js_error | Fired "request_event list"

text \<open>The effects of a call besides its result, in the order they happen.\<close>

datatype event =
    Request wire_request
  | Log_following_redirect int int string string
  | Req_destroy
  | Warn_max_redirects int string
  | Warn_retry int int string js_error
  | Sleep int
  | Error_request string js_error

text \<open>How one handler ends: it settles the promise, or awaits a recursive \<^verbatim>\<open>makeRequest\<close>.\<close>

datatype decision =
    Resolve custom_response
  | Reject js_error
  | Recurse string request_options int int

subsection \<open>Option and header resolution\<close>

text \<open>The destructuring defaults at the head of \<^verbatim>\<open>makeRequest\<close>.\<close>

definition maxRetries_of :: "client_defaults \<Rightarrow> request_options \<Rightarrow> int" where
  "maxRetries_of cfg options =
     (case opt_maxRetries options of None \<Rightarrow> default_maxRetries cfg | Some n \<Rightarrow> n)"

definition retryDelay_of :: "client_defaults \<Rightarrow> request_options \<Rightarrow> int" where
  "retryDelay_of cfg options =
     (case opt_retryDelay options of None \<Rightarrow> default_retryDelay cfg | Some n \<Rightarrow> n)"

definition timeout_of :: "client_defaults \<Rightarrow> request_options \<Rightarrow> int" where
  "timeout_of cfg options =
     (case opt_timeout options of None \<Rightarrow> default_timeout cfg | Some n \<Rightarrow> n)"

definition followRedirects_of :: "request_options \<Rightarrow> bool" where
  "followRedirects_of options =
     (case opt_followRedirects options of None \<Rightarrow> DEFAULT_FOLLOW_REDIRECTS | Some b \<Rightarrow> b)"

definition maxRedirects_of :: "request_options \<Rightarrow> int" where
  "maxRedirects_of options =
     (case opt_maxRedirects options of None \<Rightarrow> DEFAULT_MAX_REDIRECTS | Some n \<Rightarrow> n)"

text \<open>
  \<^verbatim>\<open>mergedOptions.headers\<close>: the caller's \<^verbatim>\<open>headers\<close> key replaces the default header set as a
  whole (the spread is shallow); \<open>None\<close> is \<^verbatim>\<open>undefined\<close>.
\<close>

definition merged_headers ::
  "client_defaults \<Rightarrow> request_options \<Rightarrow> (string \<times> string) list option" where
  "merged_headers cfg options =
     (case opt_headers options of
        Absent \<Rightarrow> Some (default_headers cfg)
      | Undefined \<Rightarrow> None
      | Present hs \<Rightarrow> Some hs)"

text \<open>
  \<^verbatim>\<open>String.prototype.toLowerCase\<close> on header names, which are ASCII tokens: the letters
  \<^verbatim>\<open>A\<close> to \<^verbatim>\<open>Z\<close> move by 32, every other byte stays.
\<close>

definition lower_char :: "char \<Rightarrow> char" where
  "lower_char c =
     (let n = (of_char c :: nat) in if 65 \<le> n \<and> n \<le> 90 then char_of (n + 32) else c)"

definition toLowerCase :: "string \<Rightarrow> string" where
  "toLowerCase s = map lower_char s"

text \<open>The name under which the header loop stores an entry.\<close>

definition header_key :: "string \<Rightarrow> string" where
  "header_key key =
     (if prefix ''cf-access-'' (toLowerCase key) then key else toLowerCase key)"

text \<open>
  \<^verbatim>\<open>obj[key] = value\<close> on an object created by \<^verbatim>\<open>{}\<close>, for a string value. The assignment
  replaces the value of a key that is there and appends a new key otherwise, which is
  \<^const>\<open>AList.update\<close>; but for the key \<^verbatim>\<open>__proto__\<close> it runs the setter inherited from
  \<^verbatim>\<open>Object.prototype\<close>, which ignores a value that is neither an object nor null, and the
  object stays as it is.
\<close>

definition assign :: "string \<Rightarrow> string \<Rightarrow> (string \<times> string) list \<Rightarrow> (string \<times> string) list" where
  "assign key v obj = (if key = ''__proto__'' then obj else AList.update key v obj)"

text \<open>The header loop.\<close>

definition normalize_headers :: "(string \<times> string) list \<Rightarrow> (string \<times> string) list" where
  "normalize_headers hs =
     foldl (\<lambda>acc (key, v). assign (header_key key) v acc) [] hs"

text \<open>
  The attempt that \<^verbatim>\<open>makeRequest\<close> dispatches: \<^verbatim>\<open>mergedOptions.method || "GET"\<close>, the
  normalized headers (none when \<^verbatim>\<open>mergedOptions.headers\<close> is undefined), the timeout, and the
  body written when \<^verbatim>\<open>mergedOptions.body\<close> is truthy.
\<close>

definition build_request :: "client_defaults \<Rightarrow> string \<Rightarrow> request_options \<Rightarrow> wire_request" where
  "build_request cfg url options =
     \<lparr> req_url = url,
       req_method = (case opt_method options of
                       None \<Rightarrow> ''GET''
                     | Some m \<Rightarrow> if m = [] then ''GET'' else m),
       req_headers = (case merged_headers cfg options of
                        None \<Rightarrow> []
                      | Some hs \<Rightarrow> normalize_headers hs),
       req_timeout = timeout_of cfg options,
       req_body = (case opt_body options of
                     None \<Rightarrow> None
                   | Some b \<Rightarrow> if b = [] then None else Some b) \<rparr>"

subsection \<open>The end handler\<close>

text \<open>\<^verbatim>\<open>Array.isArray(value) ? value.join(", ") : value || ""\<close>\<close>

fun join_comma :: "string list \<Rightarrow> string" where
  "join_comma [] = []"
| "join_comma [x] = x"
| "join_comma (x # y # ys) = x @ '', '' @ join_comma (y # ys)"

fun header_text :: "header_value \<Rightarrow> string" where
  "header_text (HArray vs) = join_comma vs"
| "header_text (HString s) = s"
| "header_text HUndefined = []"

text \<open>
  The response object built at the end of the \<^verbatim>\<open>end\<close> handler. \<^verbatim>\<open>res.statusCode ? ... : false\<close>
  and \<^verbatim>\<open>res.statusCode || 0\<close> take an absent status code and the number 0 alike.
\<close>

definition make_response :: "incoming_message \<Rightarrow> custom_response" where
  "make_response res =
     \<lparr> ok = (case statusCode res of
               None \<Rightarrow> False
             | Some c \<Rightarrow> if c = 0 then False else 200 \<le> c \<and> c < 300),
       status = (case statusCode res of None \<Rightarrow> 0 | Some c \<Rightarrow> c),
       statusText = (case statusMessage res of None \<Rightarrow> [] | Some m \<Rightarrow> m),
       headers = map (\<lambda>(key, v). (key, header_text v)) (res_headers res),
       responseBody = concat (chunks res) \<rparr>"

text \<open>
  \<^verbatim>\<open>res.headers.location\<close> under the test \<^verbatim>\<open>location && ...\<close>: \<open>None\<close> when the header is
  missing or its value is the empty string. The declared type of this header is
  \<^verbatim>\<open>string | undefined\<close>: Node keeps the first Location header and never delivers an array
  there.
\<close>

definition truthy_location :: "incoming_message \<Rightarrow> string option" where
  "truthy_location res =
     (case map_of (res_headers res) ''location'' of
        Some (HString s) \<Rightarrow> if s = [] then None else Some s
      | _ \<Rightarrow> None)"

definition redirect_statuses :: "int list" where
  "redirect_statuses = [301, 302, 303, 307, 308]"

text \<open>The header loop of the 303 branch: every entry but content-type and content-length.\<close>

definition redirectHeaders :: "request_options \<Rightarrow> (string \<times> string) list" where
  "redirectHeaders options =
     (case opt_headers options of
        Present hs \<Rightarrow>
          foldl (\<lambda>acc (key, v).
                   if toLowerCase key \<noteq> ''content-type'' \<and> toLowerCase key \<noteq> ''content-length''
                   then assign key v acc else acc) [] hs
      | _ \<Rightarrow> [])"

definition redirectOptions :: "incoming_message \<Rightarrow> request_options \<Rightarrow> request_options" where
  "redirectOptions res options =
     (if statusCode res = Some 303
      then options\<lparr> opt_method := Some ''GET'', opt_body := None,
                    opt_headers := Present (redirectHeaders options) \<rparr>
      else options)"

text \<open>
  \<^verbatim>\<open>res.on("end", ...)\<close>. The first argument is \<^verbatim>\<open>new URL(input, base).toString()\<close>, with
  \<open>Inl\<close> for the error it throws; the handler's \<^verbatim>\<open>catch\<close> rejects with it.
\<close>

definition on_end ::
  "(string \<Rightarrow> string option \<Rightarrow> js_error + string) \<Rightarrow> string \<Rightarrow> request_options \<Rightarrow> int \<Rightarrow> int
     \<Rightarrow> incoming_message \<Rightarrow> event list \<times> decision" where
  "on_end URL_new url options retryCount redirectCount res =
     (if followRedirects_of options
         \<and> (case statusCode res of None \<Rightarrow> 0 | Some c \<Rightarrow> c) \<in> set redirect_statuses
      then
        (case (if redirectCount < maxRedirects_of options then truthy_location res else None) of
           Some location \<Rightarrow>
             ([Log_following_redirect (redirectCount + 1) (maxRedirects_of options) url location,
               Req_destroy],
              (case URL_new location (Some url) of
                 Inl e \<Rightarrow> Reject e
               | Inr redirectUrl \<Rightarrow>
                   Recurse redirectUrl (redirectOptions res options) retryCount (redirectCount + 1)))
         | None \<Rightarrow>
             ((if redirectCount \<ge> maxRedirects_of options
               then [Warn_max_redirects (maxRedirects_of options) url] else []),
              Resolve (make_response res)))
      else ([], Resolve (make_response res)))"

subsection \<open>The error handler\<close>

definition shouldRetry :: "client_defaults \<Rightarrow> request_options \<Rightarrow> int \<Rightarrow> js_error \<Rightarrow> bool" where
  "shouldRetry cfg options retryCount error =
     (retryCount < maxRetries_of cfg options
      \<and> (err_code error = Some ''ECONNRESET''
         \<or> err_code error = Some ''ETIMEDOUT''
         \<or> err_code error = Some ''ECONNREFUSED''
         \<or> err_code error = Some ''EHOSTUNREACH''))"

text \<open>\<^verbatim>\<open>req.on("error", ...)\<close>\<close>

definition on_error ::
  "client_defaults \<Rightarrow> string \<Rightarrow> request_options \<Rightarrow> int \<Rightarrow> int \<Rightarrow> js_error
     \<Rightarrow> event list \<times> decision" where
  "on_error cfg url options retryCount redirectCount error =
     (if shouldRetry cfg options retryCount error
      then ([Warn_retry (retryCount + 1) (maxRetries_of cfg options) url error,
             Sleep (retryDelay_of cfg options * (retryCount + 1))],
            Recurse url options (retryCount + 1) redirectCount)
      else ([Error_request url error], Reject error))"

subsection \<open>The timeout handler\<close>

text \<open>
  \<^verbatim>\<open>new Error("...")\<close> with the code \<^verbatim>\<open>ETIMEDOUT\<close>; the message is the source's literal, four
  Chinese characters, in UTF-8.
\<close>

definition timeout_error :: js_error where
  "timeout_error =
     JsError ''Error''
       [CHR 0xE8, CHR 0xAF, CHR 0xB7, CHR 0xE6, CHR 0xB1, CHR 0x82,
        CHR 0xE8, CHR 0xB6, CHR 0x85, CHR 0xE6, CHR 0x97, CHR 0xB6]
       (Some ''ETIMEDOUT'')"

subsection \<open>makeRequest\<close>

text \<open>
  The handler that an event fires. \<^verbatim>\<open>req.on("timeout", ...)\<close> destroys the request and emits
  an \<^verbatim>\<open>error\<close> event with the timeout error, which runs the error handler on the spot.
\<close>

definition handle ::
  "(string \<Rightarrow> string option \<Rightarrow> js_error + string) \<Rightarrow> client_defaults \<Rightarrow> string
     \<Rightarrow> request_options \<Rightarrow> int \<Rightarrow> int \<Rightarrow> request_event \<Rightarrow> event list \<times> decision" where
  "handle URL_new cfg url options retryCount redirectCount ev =
     (case ev of
        ErrorEvent error \<Rightarrow> on_error cfg url options retryCount redirectCount error
      | TimeoutEvent \<Rightarrow>
          (case on_error cfg url options retryCount redirectCount timeout_error of
             (evs, d) \<Rightarrow> (Req_destroy # evs, d))
      | ResponseEnd res \<Rightarrow> on_end URL_new url options retryCount redirectCount res)"

text \<open>
  The budget left to a call: retries plus redirects still allowed. Every recursive call has
  a smaller one.
\<close>

definition budget :: "client_defaults \<Rightarrow> request_options \<Rightarrow> int \<Rightarrow> int \<Rightarrow> nat" where
  "budget cfg options retryCount redirectCount =
     nat (maxRetries_of cfg options - retryCount)
       + nat (maxRedirects_of options - redirectCount)"

text \<open>A promise is settled once: a later \<^verbatim>\<open>resolve\<close> or \<^verbatim>\<open>reject\<close> does nothing.\<close>

definition first_settled :: "'a option \<Rightarrow> 'a option \<Rightarrow> 'a option" where
  "first_settled earlier later = (case earlier of None \<Rightarrow> later | Some s \<Rightarrow> Some s)"

text \<open>
  \<^verbatim>\<open>makeRequest(url, options, retryCount, redirectCount)\<close> against a socket layer \<open>transport\<close>
  in the world \<open>w\<close>. The result is the promise at the end of the call (\<open>None\<close> when nothing
  ever settles it, \<open>Some (Inl e)\<close> rejected, \<open>Some (Inr r)\<close> resolved), the world after the call
  and the events of the call.

  When \<^verbatim>\<open>new URL(url)\<close> at the head of the function throws, the call rejects before anything is
  sent; the parsed URL itself only selects between the http and the https module. When the
  dispatch throws, the executor of the promise rejects with what was thrown, and nothing is
  logged. Otherwise \<open>run_handlers\<close> runs the handler of every event that fires: a handler that
  resolves or rejects settles the promise if it is still pending, a handler that awaits a
  recursive call settles it with the settlement of that call. The recursion ends because
  every recursive call has a smaller budget.
\<close>

function makeRequest ::
  "(string \<Rightarrow> string option \<Rightarrow> js_error + string) \<Rightarrow> client_defaults
     \<Rightarrow> (wire_request \<Rightarrow> 'w \<Rightarrow> outcome \<times> 'w)
     \<Rightarrow> string \<Rightarrow> request_options \<Rightarrow> int \<Rightarrow> int \<Rightarrow> 'w
     \<Rightarrow> (js_error + custom_response) option \<times> 'w \<times> event list"
  and run_handlers ::
  "(string \<Rightarrow> string option \<Rightarrow> js_error + string) \<Rightarrow> client_defaults
     \<Rightarrow> (wire_request \<Rightarrow> 'w \<Rightarrow> outcome \<times> 'w)
     \<Rightarrow> string \<Rightarrow> request_options \<Rightarrow> int \<Rightarrow> int \<Rightarrow> request_event list \<Rightarrow> 'w
     \<Rightarrow> (js_error + custom_response) option \<times> 'w \<times> event list" where
  "makeRequest URL_new cfg transport url options retryCount redirectCount w =
     (case URL_new url None of
        Inl e \<Rightarrow> (Some (Inl e), w, [])
      | Inr parsedUrl \<Rightarrow>
          (case transport (build_request cfg url options) w of
             (Threw e, w') \<Rightarrow> (Some (Inl e), w', [])
           | (Fired fired, w') \<Rightarrow>
               (case run_handlers URL_new cfg transport url options retryCount redirectCount
                       fired w' of
                  (settled, w'', evs) \<Rightarrow>
                    (settled, w'', Request (build_request cfg url options) # evs))))"
| "run_handlers URL_new cfg transport url options retryCount redirectCount [] w =
     (None, w, [])"
| "run_handlers URL_new cfg transport url options retryCount redirectCount (ev # fired) w =
     (case handle URL_new cfg url options retryCount redirectCount ev of
        (evs, Resolve response) \<Rightarrow>
          (case run_handlers URL_new cfg transport url options retryCount redirectCount
                  fired w of
             (later, w', evs') \<Rightarrow> (Some (Inr response), w', evs @ evs'))
      | (evs, Reject error) \<Rightarrow>
          (case run_handlers URL_new cfg transport url options retryCount redirectCount
                  fired w of
             (later, w', evs') \<Rightarrow> (Some (Inl error), w', evs @ evs'))
      | (evs, Recurse url' options' retryCount' redirectCount') \<Rightarrow>
          (case makeRequest URL_new cfg transport url' options' retryCount' redirectCount' w of
             (settled, w', evs') \<Rightarrow>
               (case run_handlers URL_new cfg transport url options retryCount redirectCount
                       fired w' of
                  (later, w'', evs'') \<Rightarrow>
                    (first_settled settled later, w'', evs @ evs' @ evs''))))"
  by pat_completeness auto
termination
proof (relation "inv_image (less_than <*lex*> less_than <*lex*> less_than)
         (\<lambda>call. case call of
            Inl (URL_new, cfg, transport, url, options, retryCount, redirectCount, w) \<Rightarrow>
              (budget cfg options retryCount redirectCount, 1, 0)
          | Inr (URL_new, cfg, transport, url, options, retryCount, redirectCount, fired, w) \<Rightarrow>
              (budget cfg options retryCount redirectCount, 0, length fired))",
       goal_cases)
  case 1
  show ?case by (intro wf_inv_image wf_lex_prod wf_less_than)
next
  case 2
  show ?case by simp
next
  case 3
  show ?case by simp
next
  case 4
  show ?case by simp
next
  case (5 URL_new cfg transport url options retryCount redirectCount ev fired w evs dec
          url' options' retryCount' redirectCount')
  then have step: "handle URL_new cfg url options retryCount redirectCount ev
                     = (evs, Recurse url' options' retryCount' redirectCount')"
    by simp
  have "budget cfg options' retryCount' redirectCount'
          < budget cfg options retryCount redirectCount"
  proof (cases ev)
    case (ErrorEvent error)
    with step show ?thesis
      by (auto simp: handle_def on_error_def shouldRetry_def budget_def split: if_splits)
  next
    case TimeoutEvent
    with step show ?thesis
      by (auto simp: handle_def on_error_def shouldRetry_def budget_def split: if_splits)
  next
    case (ResponseEnd res)
    with step show ?thesis
      by (auto simp: handle_def on_end_def budget_def redirectOptions_def
                     maxRetries_of_def maxRedirects_of_def
               split: if_splits option.splits sum.splits)
  qed
  then show ?case by simp
next
  case 6
  show ?case by simp
qed

declare makeRequest.simps [simp del]

definition customFetch ::
  "(string \<Rightarrow> string option \<Rightarrow> js_error + string) \<Rightarrow> client_defaults
     \<Rightarrow> (wire_request \<Rightarrow> 'w \<Rightarrow> outcome \<times> 'w)
     \<Rightarrow> string \<Rightarrow> request_options \<Rightarrow> 'w
     \<Rightarrow> (js_error + custom_response) option \<times> 'w \<times> event list" where
  "customFetch URL_new cfg transport url options w =
     makeRequest URL_new cfg transport url options 0 0 w"

subsection \<open>The body accessors\<close>

text \<open>
  What \<^verbatim>\<open>JSON.parse\<close> throws: an \<^verbatim>\<open>Error\<close> instance (a \<^verbatim>\<open>SyntaxError\<close>), or, as far as the
  \<^verbatim>\<open>instanceof\<close> test of the source goes, something else.
\<close>

datatype thrown = ThrownError js_error | ThrownOther

text \<open>
  \<^verbatim>\<open>text: async () => responseBody.toString("utf8")\<close>. The decoder is a parameter; in
  part_002 the body is a string already and the accessor returns it as it is, which is the
  decoder \<open>\<lambda>s. s\<close>.
\<close>

definition text_accessor :: "(string \<Rightarrow> string) \<Rightarrow> custom_response \<Rightarrow> string" where
  "text_accessor toString_utf8 r = toString_utf8 (responseBody r)"

text \<open>The message of the error that the \<^verbatim>\<open>catch\<close> of the JSON accessor builds.\<close>

definition parse_failure :: "thrown \<Rightarrow> js_error" where
  "parse_failure t =
     JsError ''Error''
       (''Failed to parse JSON: ''
          @ (case t of ThrownError e \<Rightarrow> err_message e | ThrownOther \<Rightarrow> ''Unknown error''))
       None"

definition json_accessor ::
  "(string \<Rightarrow> string) \<Rightarrow> (string \<Rightarrow> thrown + 'j) \<Rightarrow> custom_response \<Rightarrow> js_error + 'j" where
  "json_accessor toString_utf8 JSON_parse r =
     (case JSON_parse (toString_utf8 (responseBody r)) of
        Inr v \<Rightarrow> Inr v
      | Inl t \<Rightarrow> Inl (parse_failure t))"

subsection \<open>The body in memory\<close>

text \<open>
  In part_001 the captured body is a \<^verbatim>\<open>Buffer\<close>: a window of \<^verbatim>\<open>byteLength\<close> bytes, from
  \<^verbatim>\<open>byteOffset\<close> on, onto an \<^verbatim>\<open>ArrayBuffer\<close> that other Buffers may share (Node cuts small
  Buffers out of a pool). The third accessor hands memory to the caller, who may write to
  it. Whether the accessors keep returning the body then depends on what memory is shared,
  so the accessors are modelled a second time, over a store: the list of the ArrayBuffers
  allocated so far, an address being a position in the list.
\<close>

type_synonym store = "string list"

record buffer_view =
  view_buffer :: nat
  byteOffset :: nat
  byteLength :: nat

definition buffer_at :: "store \<Rightarrow> nat \<Rightarrow> string" where
  "buffer_at st a = (if a < length st then st ! a else [])"

text \<open>The bytes that \<^verbatim>\<open>responseBody.toString\<close> reads.\<close>

definition view_bytes :: "store \<Rightarrow> buffer_view \<Rightarrow> string" where
  "view_bytes st b = take (byteLength b) (drop (byteOffset b) (buffer_at st (view_buffer b)))"

text \<open>\<^verbatim>\<open>ArrayBuffer.prototype.slice(start, stop)\<close>: a new ArrayBuffer with a copy of the bytes.\<close>

definition slice :: "store \<Rightarrow> nat \<Rightarrow> nat \<Rightarrow> nat \<Rightarrow> nat \<times> store" where
  "slice st a start stop =
     (length st, st @ [take (stop - start) (drop start (buffer_at st a))])"

text \<open>
  \<^verbatim>\<open>responseBody.buffer.slice(responseBody.byteOffset,
  responseBody.byteOffset + responseBody.byteLength)\<close>
\<close>

definition arrayBuffer :: "store \<Rightarrow> buffer_view \<Rightarrow> nat \<times> store" where
  "arrayBuffer st b =
     slice st (view_buffer b) (byteOffset b) (byteOffset b + byteLength b)"

text \<open>
  What the holder of a response object can do with it: call one of the three accessors, or
  write a byte into one of the ArrayBuffers that \<^verbatim>\<open>arrayBuffer\<close> has handed out so far
  (\<open>Write k i c\<close> writes \<open>c\<close> at index \<open>i\<close> of the \<open>k\<close>-th of them; a write past the end of a
  buffer does nothing, as in JavaScript). The state is the store and the addresses handed
  out.
\<close>

datatype action = Call_text | Call_json | Call_arrayBuffer | Write nat nat char

datatype 'j observed =
    Text_value string
  | Json_value "js_error + 'j"
  | Buffer_value string
  | Written

definition act ::
  "(string \<Rightarrow> string) \<Rightarrow> (string \<Rightarrow> thrown + 'j) \<Rightarrow> buffer_view \<Rightarrow> action
     \<Rightarrow> store \<times> nat list \<Rightarrow> 'j observed \<times> store \<times> nat list" where
  "act decode JSON_parse b a s =
     (case s of (st, handed) \<Rightarrow>
        (case a of
           Call_text \<Rightarrow> (Text_value (decode (view_bytes st b)), st, handed)
         | Call_json \<Rightarrow>
             (Json_value
                (case JSON_parse (decode (view_bytes st b)) of
                   Inr v \<Rightarrow> Inr v
                 | Inl t \<Rightarrow> Inl (parse_failure t)),
              st, handed)
         | Call_arrayBuffer \<Rightarrow>
             (case arrayBuffer st b of
                (a', st') \<Rightarrow> (Buffer_value (buffer_at st' a'), st', handed @ [a']))
         | Write k i c \<Rightarrow>
             (Written,
              (if k < length handed
               then st[handed ! k := (buffer_at st (handed ! k))[i := c]]
               else st),
              handed)))"

fun acts ::
  "(string \<Rightarrow> string) \<Rightarrow> (string \<Rightarrow> thrown + 'j) \<Rightarrow> buffer_view \<Rightarrow> action list
     \<Rightarrow> store \<times> nat list \<Rightarrow> 'j observed list \<times> store \<times> nat list" where
  "acts decode JSON_parse b [] s = ([], s)"
| "acts decode JSON_parse b (a # rest) s =
     (case act decode JSON_parse b a s of
        (v, s') \<Rightarrow>
          (case acts decode JSON_parse b rest s' of
             (vs, s'') \<Rightarrow> (v # vs, s'')))"

subsection \<open>Sample inputs\<close>

text \<open>
  Concrete inputs on which the theorems below are instantiated. \<open>sample_URL_new\<close> and
  \<open>sample_JSON_parse\<close> stand in for Node's \<^verbatim>\<open>URL\<close> and \<^verbatim>\<open>JSON.parse\<close> on the inputs of the
  examples only: the first returns an absolute http URL as it is and throws on anything else
  (as Node does on \<^verbatim>\<open>"http://"\<close>), the second knows the document \<^verbatim>\<open>{"a":1}\<close>. The theorems
  themselves hold for every URL resolver, decoder and parser.
\<close>

definition sample_URL_new :: "string \<Rightarrow> string option \<Rightarrow> js_error + string" where
  "sample_URL_new input base =
     (if prefix ''http://'' input \<and> 7 < length input then Inr input
      else Inl (JsError ''TypeError'' ''Invalid URL'' (Some ''ERR_INVALID_URL'')))"

datatype json = JNull | JBool bool | JNumber int | JString string
  | JArray "json list" | JObject "(string \<times> json) list"

definition sample_JSON_parse :: "string \<Rightarrow> thrown + json" where
  \<open>sample_JSON_parse s =
     (if s = ''{"a":1}'' then Inr (JObject [(''a'', JNumber 1)])
      else Inl (ThrownError (JsError ''SyntaxError'' ''Unexpected token'' None)))\<close>

text \<open>The defaults of part_002, with the fixed part of \<^verbatim>\<open>customFetchOptions.headers\<close>.\<close>

definition sample_defaults :: client_defaults where
  "sample_defaults =
     \<lparr> default_headers = [(''User-Agent'', ''Kuma-Mieru''),
                          (''Accept'', ''text/html,application/json,*/*''),
                          (''Accept-Encoding'', []),
                          (''Connection'', ''keep-alive'')],
       default_maxRetries = 3, default_retryDelay = 1000, default_timeout = 10000 \<rparr>"

text \<open>The options object \<^verbatim>\<open>{}\<close>.\<close>

definition no_options :: request_options where
  "no_options =
     \<lparr> opt_method = None, opt_headers = Absent, opt_body = None, opt_maxRetries = None,
       opt_retryDelay = None, opt_timeout = None, opt_followRedirects = None,
       opt_maxRedirects = None \<rparr>"

text \<open>A form post: \<^verbatim>\<open>{method: "POST", body: "x=1", headers: {...}}\<close>.\<close>

definition post_options :: request_options where
  "post_options =
     no_options\<lparr> opt_method := Some ''POST'', opt_body := Some ''x=1'',
                 opt_headers := Present [(''Content-Type'', ''application/x-www-form-urlencoded''),
                                         (''CF-Access-Client-Id'', ''id''),
                                         (''X-Custom'', ''1'')] \<rparr>"

definition sample_response ::
  "int \<Rightarrow> string \<Rightarrow> (string \<times> header_value) list \<Rightarrow> string list \<Rightarrow> incoming_message" where
  "sample_response code message hs body =
     \<lparr> statusCode = Some code, statusMessage = Some message, res_headers = hs,
       chunks = body \<rparr>"

text \<open>
  Socket layers whose world is the number of attempts made so far: one that resets the
  first connection and then answers 200, one that always answers with the same response.
\<close>

definition reset_once :: "wire_request \<Rightarrow> nat \<Rightarrow> outcome \<times> nat" where
  \<open>reset_once req n =
     (if n = 0
      then Fired [ErrorEvent (JsError ''Error'' ''read ECONNRESET'' (Some ''ECONNRESET''))]
      else Fired [ResponseEnd (sample_response 200 ''OK'' [] [''{"a"'', '':1}''])],
      n + 1)\<close>

definition always :: "incoming_message \<Rightarrow> wire_request \<Rightarrow> nat \<Rightarrow> outcome \<times> nat" where
  "always res req n = (Fired [ResponseEnd res], n + 1)"

definition redirect_once :: "incoming_message \<Rightarrow> wire_request \<Rightarrow> nat \<Rightarrow> outcome \<times> nat" where
  "redirect_once res req n =
     (if n = 0 then Fired [ResponseEnd res]
      else Fired [ResponseEnd (sample_response 200 ''OK'' [] [''done''])],
      n + 1)"

text \<open>
  A socket layer on which every attempt times out before any response: the \<^verbatim>\<open>timeout\<close> event,
  then the \<^verbatim>\<open>error\<close> event that Node fires on a request destroyed without a response. And
  one on which the connection is lost in the middle of every body.
\<close>

definition socket_hang_up :: js_error where
  "socket_hang_up = JsError ''Error'' ''socket hang up'' (Some ''ECONNRESET'')"

definition always_timeout :: "wire_request \<Rightarrow> nat \<Rightarrow> outcome \<times> nat" where
  "always_timeout req n = (Fired [TimeoutEvent, ErrorEvent socket_hang_up], n + 1)"

definition always_lost :: "wire_request \<Rightarrow> nat \<Rightarrow> outcome \<times> nat" where
  "always_lost req n = (Fired [], n + 1)"

definition found_response :: "string \<Rightarrow> incoming_message" where
  "found_response location =
     sample_response 302 ''Found'' [(''location'', HString location)] []"

section \<open>Properties\<close>

subsection \<open>Header names\<close>

lemma lower_char_idem: "lower_char (lower_char c) = lower_char c"
  by (auto simp: lower_char_def Let_def)

lemma toLowerCase_idem: "toLowerCase (toLowerCase s) = toLowerCase s"
  by (simp add: toLowerCase_def lower_char_idem)

lemma toLowerCase_header_key: "toLowerCase (header_key key) = toLowerCase key"
  by (simp add: header_key_def toLowerCase_idem)

text \<open>The names an object holds after a loop of guarded assignments.\<close>

lemma assign_names:
  "fst ` set (assign key v obj) = fst ` set obj \<union> ({key} - {''__proto__''})"
  by (auto simp: assign_def AList.dom_update)

lemma foldl_assign_names:
  "fst ` set (foldl (\<lambda>acc (key, v). if P key then assign (f key) v acc else acc) acc hs)
     = fst ` set acc \<union> (f ` {key \<in> fst ` set hs. P key} - {''__proto__''})"
proof (induction hs arbitrary: acc)
  case Nil
  then show ?case by simp
next
  case (Cons h hs)
  obtain key v where h: "h = (key, v)" by (cases h)
  show ?case
    by (auto simp: h Cons.IH assign_names)
qed

lemma normalize_headers_names:
  "fst ` set (normalize_headers hs) = header_key ` fst ` set hs - {''__proto__''}"
  using foldl_assign_names [of "\<lambda>_. True" header_key "[]" hs]
  by (simp add: normalize_headers_def)

lemma redirectHeaders_names:
  "fst ` set (redirectHeaders options) =
     {key \<in> fst ` set (case opt_headers options of Present hs \<Rightarrow> hs | _ \<Rightarrow> []).
        toLowerCase key \<noteq> ''content-type'' \<and> toLowerCase key \<noteq> ''content-length''
        \<and> key \<noteq> ''__proto__''}"
proof (cases "opt_headers options")
  case (Present hs)
  with foldl_assign_names
    [of "\<lambda>key. toLowerCase key \<noteq> ''content-type'' \<and> toLowerCase key \<noteq> ''content-length''"
        "\<lambda>key. key" "[]" hs]
  show ?thesis by (auto simp: redirectHeaders_def)
qed (simp_all add: redirectHeaders_def)

text \<open>
  The keys of a JavaScript object are distinct; on such a header object the loop of the 303
  branch is a filter, so the headers it keeps keep their order and their values. It drops
  the key \<^verbatim>\<open>__proto__\<close> as well, which the assignment does not store.
\<close>

lemma update_fresh: "key \<notin> fst ` set acc \<Longrightarrow> AList.update key v acc = acc @ [(key, v)]"
  by (induction acc) auto

lemma foldl_assign_distinct:
  "distinct (map fst (acc @ hs)) \<Longrightarrow>
   foldl (\<lambda>acc (key, v). if P key then assign key v acc else acc) acc hs
     = acc @ filter (\<lambda>(key, v). P key \<and> key \<noteq> ''__proto__'') hs"
proof (induction hs arbitrary: acc)
  case Nil
  then show ?case by simp
next
  case (Cons h hs)
  obtain key v where h: "h = (key, v)" by (cases h)
  from Cons.prems have fresh: "key \<notin> fst ` set acc" by (auto simp: h)
  show ?case
  proof (cases "P key \<and> key \<noteq> ''__proto__''")
    case True
    from Cons.prems have "distinct (map fst ((acc @ [(key, v)]) @ hs))" by (simp add: h)
    from Cons.IH [OF this] True fresh show ?thesis by (simp add: h update_fresh assign_def)
  next
    case False
    from Cons.prems have "distinct (map fst (acc @ hs))" by (simp add: h)
    from Cons.IH [OF this] False show ?thesis by (auto simp: h assign_def)
  qed
qed

lemma redirectHeaders_filter:
  "opt_headers options = Present hs \<Longrightarrow> distinct (map fst hs) \<Longrightarrow>
   redirectHeaders options =
     filter (\<lambda>(key, v). (toLowerCase key \<noteq> ''content-type''
                       \<and> toLowerCase key \<noteq> ''content-length'')
                      \<and> key \<noteq> ''__proto__'') hs"
  using foldl_assign_distinct [of "[]" hs]
  by (simp add: redirectHeaders_def)

text \<open>
  The header object that is sent, as a map: the entries under the names of the header loop,
  a later entry of a name replacing an earlier one, and nothing under \<^verbatim>\<open>__proto__\<close>.
\<close>

lemma map_of_assign:
  "map_of (assign key v obj) name =
     (if key = ''__proto__'' then map_of obj name else ((map_of obj)(key \<mapsto> v)) name)"
  by (simp add: assign_def AList.update_conv')

lemma foldl_assign_map:
  "name \<noteq> ''__proto__'' \<Longrightarrow>
   map_of (foldl (\<lambda>acc (key, v). assign (f key) v acc) acc hs) name
     = (map_of acc ++ map_of (rev (map (\<lambda>(key, v). (f key, v)) hs))) name"
proof (induction hs arbitrary: acc)
  case Nil
  then show ?case by simp
next
  case (Cons h hs)
  obtain key v where h: "h = (key, v)" by (cases h)
  from Cons.IH [OF Cons.prems, of "assign (f key) v acc"] Cons.prems show ?case
    by (auto simp: h map_add_def map_of_assign split: option.splits)
qed

lemma foldl_assign_proto:
  "map_of (foldl (\<lambda>acc (key, v). assign (f key) v acc) acc hs) ''__proto__''
     = map_of acc ''__proto__''"
  by (induction hs arbitrary: acc) (auto simp: map_of_assign)

lemma normalize_headers_map:
  "map_of (normalize_headers hs) name =
     (if name = ''__proto__'' then None
      else map_of (rev (map (\<lambda>(key, v). (header_key key, v)) hs)) name)"
  using foldl_assign_map [of name header_key "[]" hs] foldl_assign_proto [of header_key "[]" hs]
  by (simp add: normalize_headers_def)

subsection \<open>One attempt\<close>

lemma first_settled_None [simp]: "first_settled settled None = settled"
  by (simp add: first_settled_def split: option.splits)

text \<open>An attempt on which the end of a response is the only event.\<close>

lemma makeRequest_on_end:
  assumes "URL_new url None = Inr parsedUrl"
    and "transport (build_request cfg url options) w = (Fired [ResponseEnd res], w')"
  shows "makeRequest URL_new cfg transport url options retryCount redirectCount w =
     (case on_end URL_new url options retryCount redirectCount res of
        (evs, Resolve response) \<Rightarrow>
          (Some (Inr response), w', Request (build_request cfg url options) # evs)
      | (evs, Reject error) \<Rightarrow>
          (Some (Inl error), w', Request (build_request cfg url options) # evs)
      | (evs, Recurse url' options' retryCount' redirectCount') \<Rightarrow>
          (case makeRequest URL_new cfg transport url' options' retryCount' redirectCount' w' of
             (result, w'', evs') \<Rightarrow>
               (result, w'', Request (build_request cfg url options) # evs @ evs')))"
  using assms
  by (subst makeRequest.simps)
     (simp add: handle_def split: prod.splits decision.splits)

text \<open>An attempt on which one \<^verbatim>\<open>error\<close> event is the only event.\<close>

lemma makeRequest_on_error:
  assumes "URL_new url None = Inr parsedUrl"
    and "transport (build_request cfg url options) w = (Fired [ErrorEvent error], w')"
  shows "makeRequest URL_new cfg transport url options retryCount redirectCount w =
     (if retryCount < maxRetries_of cfg options
         \<and> err_code error \<in> {Some ''ECONNRESET'', Some ''ETIMEDOUT'',
                              Some ''ECONNREFUSED'', Some ''EHOSTUNREACH''}
      then (case makeRequest URL_new cfg transport url options (retryCount + 1) redirectCount w' of
              (result, w'', evs') \<Rightarrow>
                (result, w'',
                 [Request (build_request cfg url options),
                  Warn_retry (retryCount + 1) (maxRetries_of cfg options) url error,
                  Sleep (retryDelay_of cfg options * (retryCount + 1))] @ evs'))
      else (Some (Inl error), w',
            [Request (build_request cfg url options), Error_request url error]))"
  using assms
  by (subst makeRequest.simps)
     (auto simp: handle_def on_error_def shouldRetry_def split: prod.splits)

subsection \<open>Retry\<close>

text \<open>A connection reset once: one warning, a sleep of 1000 ms, a second attempt, the 200.\<close>

lemma retry_after_reset:
  \<open>makeRequest sample_URL_new sample_defaults reset_once ''http://a/x'' no_options 0 0 0
       = (Some (Inr (make_response (sample_response 200 ''OK'' [] [''{"a"'', '':1}'']))), 2,
          [Request (build_request sample_defaults ''http://a/x'' no_options),
           Warn_retry 1 3 ''http://a/x''
             (JsError ''Error'' ''read ECONNRESET'' (Some ''ECONNRESET'')),
           Sleep 1000,
           Request (build_request sample_defaults ''http://a/x'' no_options)])\<close>
  by code_simp

text \<open>
  Claim C1. The claim gives every attempt that fails one pass through the retry policy:
  one retry after the backoff, or one rejection. For an attempt on which a single \<^verbatim>\<open>error\<close>
  event fires that is what \<open>makeRequest_on_error\<close> shows. The code departs from the claim on
  two failures. An attempt that times out before any response runs the error handler
  twice, for the timeout error that the timeout handler emits and for the error that its
  \<^verbatim>\<open>req.destroy()\<close> brings about, and each run sleeps and starts a retry chain of its own: with
  \<open>maxRetries = 1\<close> on a socket layer where every attempt times out, three requests go out
  instead of two. And an attempt whose connection is lost in the middle of the body fires
  no handler: the call is neither retried nor rejected, its promise stays pending.
\<close>

theorem C1_timeout_retries_twice:
  "makeRequest sample_URL_new sample_defaults always_timeout ''http://a/x''
       (no_options\<lparr> opt_maxRetries := Some 1 \<rparr>) 0 0 0
     = (Some (Inl timeout_error), 3,
        [Request (build_request sample_defaults ''http://a/x''
                    (no_options\<lparr> opt_maxRetries := Some 1 \<rparr>)),
         Req_destroy,
         Warn_retry 1 1 ''http://a/x'' timeout_error,
         Sleep 1000,
         Request (build_request sample_defaults ''http://a/x''
                    (no_options\<lparr> opt_maxRetries := Some 1 \<rparr>)),
         Req_destroy,
         Error_request ''http://a/x'' timeout_error,
         Error_request ''http://a/x'' socket_hang_up,
         Warn_retry 1 1 ''http://a/x'' socket_hang_up,
         Sleep 1000,
         Request (build_request sample_defaults ''http://a/x''
                    (no_options\<lparr> opt_maxRetries := Some 1 \<rparr>)),
         Req_destroy,
         Error_request ''http://a/x'' timeout_error,
         Error_request ''http://a/x'' socket_hang_up])
   \<and> makeRequest sample_URL_new sample_defaults always_lost ''http://a/x'' no_options 0 0 0
     = (None, 1, [Request (build_request sample_defaults ''http://a/x'' no_options)])"
  by code_simp

subsection \<open>Redirects\<close>

text \<open>
  Claim C2. When the \<^verbatim>\<open>end\<close> handler follows a redirect of status 303, the request
  dispatched from the forwarded options has method GET, writes no body and carries no
  header whose lower-cased name is content-type or content-length. The forwarded header
  object holds the names of the original one but those two (and but \<^verbatim>\<open>__proto__\<close>, which an
  assignment does not store); as the keys of an object are distinct, it is the original
  header object filtered. When the status is 301, 302, 307
  or 308 the forwarded options are the original options, so the next request has the
  method, the body and the headers of the original one.
\<close>

theorem C2_redirect_forwarding:
  assumes "on_end URL_new url options retryCount redirectCount res
             = (evs, Recurse url' options' retryCount' redirectCount')"
  shows "(statusCode res = Some 303 \<longrightarrow>
            req_method (build_request cfg url' options') = ''GET''
          \<and> req_body (build_request cfg url' options') = None
          \<and> (\<forall>name \<in> fst ` set (req_headers (build_request cfg url' options')).
                toLowerCase name \<noteq> ''content-type'' \<and> toLowerCase name \<noteq> ''content-length'')
          \<and> opt_headers options' = Present (redirectHeaders options)
          \<and> fst ` set (redirectHeaders options)
              = {key \<in> fst ` set (case opt_headers options of Present hs \<Rightarrow> hs | _ \<Rightarrow> []).
                   toLowerCase key \<noteq> ''content-type'' \<and> toLowerCase key \<noteq> ''content-length''
                   \<and> key \<noteq> ''__proto__''}
          \<and> (\<forall>hs. opt_headers options = Present hs \<and> distinct (map fst hs) \<longrightarrow>
                redirectHeaders options
                  = filter (\<lambda>(key, v). (toLowerCase key \<noteq> ''content-type''
                                        \<and> toLowerCase key \<noteq> ''content-length'')
                                       \<and> key \<noteq> ''__proto__'') hs))
       \<and> (statusCode res \<noteq> Some 303 \<longrightarrow>
            statusCode res \<in> {Some 301, Some 302, Some 307, Some 308}
          \<and> options' = options
          \<and> req_method (build_request cfg url' options') = req_method (build_request cfg url options)
          \<and> req_body (build_request cfg url' options') = req_body (build_request cfg url options)
          \<and> req_headers (build_request cfg url' options')
              = req_headers (build_request cfg url options))"
proof -
  from assms have opts: "options' = redirectOptions res options"
    and code: "(case statusCode res of None \<Rightarrow> 0 | Some c \<Rightarrow> c) \<in> set redirect_statuses"
    by (auto simp: on_end_def split: if_splits option.splits sum.splits)
  show ?thesis
  proof (cases "statusCode res = Some 303")
    case True
    have "toLowerCase name \<noteq> ''content-type'' \<and> toLowerCase name \<noteq> ''content-length''"
      if "name \<in> fst ` set (normalize_headers (redirectHeaders options))" for name
    proof -
      from that obtain key where "key \<in> fst ` set (redirectHeaders options)"
        and "name = header_key key"
        unfolding normalize_headers_names by blast
      then show ?thesis
        by (simp add: redirectHeaders_names toLowerCase_header_key)
    qed
    with True opts have forwarded:
      "req_method (build_request cfg url' options') = ''GET''
       \<and> req_body (build_request cfg url' options') = None
       \<and> (\<forall>name \<in> fst ` set (req_headers (build_request cfg url' options')).
             toLowerCase name \<noteq> ''content-type'' \<and> toLowerCase name \<noteq> ''content-length'')
       \<and> opt_headers options' = Present (redirectHeaders options)"
      by (simp add: redirectOptions_def build_request_def merged_headers_def)
    have kept: "\<forall>hs. opt_headers options = Present hs \<and> distinct (map fst hs) \<longrightarrow>
                redirectHeaders options
                  = filter (\<lambda>(key, v). (toLowerCase key \<noteq> ''content-type''
                                        \<and> toLowerCase key \<noteq> ''content-length'')
                                       \<and> key \<noteq> ''__proto__'') hs"
      using redirectHeaders_filter by blast
    from True forwarded redirectHeaders_names [of options] kept show ?thesis
      by blast
  next
    case False
    with code have "statusCode res \<in> {Some 301, Some 302, Some 307, Some 308}"
      by (auto simp: redirect_statuses_def split: option.splits)
    with False opts show ?thesis
      by (simp add: redirectOptions_def build_request_def)
  qed
qed

text \<open>A form post answered by 303, and the same post answered by 307.\<close>

theorem C2_redirect_forwarding_witness:
  "on_end sample_URL_new ''http://a/x'' post_options 0 0
       (sample_response 303 ''See Other'' [(''location'', HString ''http://b/y'')] [])
     = ([Log_following_redirect 1 5 ''http://a/x'' ''http://b/y'', Req_destroy],
        Recurse ''http://b/y''
          (redirectOptions (sample_response 303 ''See Other'' [(''location'', HString ''http://b/y'')] [])
             post_options) 0 1)
   \<and> req_method (build_request sample_defaults ''http://b/y''
          (redirectOptions (sample_response 303 ''See Other'' [(''location'', HString ''http://b/y'')] [])
             post_options)) = ''GET''
   \<and> req_body (build_request sample_defaults ''http://b/y''
          (redirectOptions (sample_response 303 ''See Other'' [(''location'', HString ''http://b/y'')] [])
             post_options)) = None
   \<and> on_end sample_URL_new ''http://a/x'' post_options 0 0
       (sample_response 307 ''Temporary Redirect'' [(''location'', HString ''http://b/y'')] [])
     = ([Log_following_redirect 1 5 ''http://a/x'' ''http://b/y'', Req_destroy],
        Recurse ''http://b/y'' post_options 0 1)
   \<and> req_method (build_request sample_defaults ''http://b/y'' post_options) = ''POST''
   \<and> req_body (build_request sample_defaults ''http://b/y'' post_options) = Some ''x=1''"
proof -
  have see_other:
    "on_end sample_URL_new ''http://a/x'' post_options 0 0
         (sample_response 303 ''See Other'' [(''location'', HString ''http://b/y'')] [])
       = ([Log_following_redirect 1 5 ''http://a/x'' ''http://b/y'', Req_destroy],
          Recurse ''http://b/y''
            (redirectOptions (sample_response 303 ''See Other'' [(''location'', HString ''http://b/y'')] [])
             post_options) 0 1)"
    by code_simp
  have temporary:
    "on_end sample_URL_new ''http://a/x'' post_options 0 0
         (sample_response 307 ''Temporary Redirect'' [(''location'', HString ''http://b/y'')] [])
       = ([Log_following_redirect 1 5 ''http://a/x'' ''http://b/y'', Req_destroy],
          Recurse ''http://b/y'' post_options 0 1)"
    by code_simp
  have post: "req_method (build_request sample_defaults ''http://a/x'' post_options) = ''POST''"
    "req_body (build_request sample_defaults ''http://a/x'' post_options) = Some ''x=1''"
    by (simp_all add: build_request_def post_options_def no_options_def)
  have "statusCode (sample_response 303 ''See Other'' [(''location'', HString ''http://b/y'')] [])
          = Some 303"
    and "statusCode (sample_response 307 ''Temporary Redirect''
                       [(''location'', HString ''http://b/y'')] []) \<noteq> Some 303"
    by (simp_all add: sample_response_def)
  with C2_redirect_forwarding [OF see_other, of sample_defaults]
    C2_redirect_forwarding [OF temporary, of sample_defaults] see_other temporary post
  show ?thesis by simp
qed

text \<open>
  A redirect status, \<^verbatim>\<open>followRedirects\<close>, a Location header and a redirect budget do not
  suffice for a redirect to be followed. A 302 whose Location header is there with an empty
  value is returned as the final response, although redirects are followed by default and
  none of the five allowed redirects is used; and a 302 whose Location does not resolve
  against the current URL rejects the call with the error of the URL constructor, with no
  request to a new target.
\<close>

theorem C3_counterexample:
  "followRedirects_of no_options
   \<and> (302::int) \<in> {301, 302, 303, 307, 308}
   \<and> (0::int) < maxRedirects_of no_options
   \<and> map_of (res_headers (sample_response 302 ''Found'' [(''location'', HString [])] []))
        ''location'' = Some (HString [])
   \<and> makeRequest sample_URL_new sample_defaults
        (always (sample_response 302 ''Found'' [(''location'', HString [])] []))
        ''http://a/x'' no_options 0 0 0
       = (Some (Inr (make_response (sample_response 302 ''Found'' [(''location'', HString [])] []))),
          1, [Request (build_request sample_defaults ''http://a/x'' no_options)])
   \<and> map_of (res_headers (sample_response 302 ''Found'' [(''location'', HString ''http://'')] []))
        ''location'' = Some (HString ''http://'')
   \<and> makeRequest sample_URL_new sample_defaults
        (always (sample_response 302 ''Found'' [(''location'', HString ''http://'')] []))
        ''http://a/x'' no_options 0 0 0
       = (Some (Inl (JsError ''TypeError'' ''Invalid URL'' (Some ''ERR_INVALID_URL''))),
          1, [Request (build_request sample_defaults ''http://a/x'' no_options),
              Log_following_redirect 1 5 ''http://a/x'' ''http://'', Req_destroy])"
  by code_simp

text \<open>
  Claim C3, amended. After a response, the call goes on to a redirect target exactly when
  the status is 301, 302, 303, 307 or 308, \<^verbatim>\<open>followRedirects\<close> is true,
  \<open>redirectCount < maxRedirects\<close>, the Location header is there with a non-empty value and
  that value resolves against the current URL. The call is then the call on the resolved
  URL with \<open>redirectCount + 1\<close> and the same \<open>retryCount\<close>. When the Location does not resolve,
  the call rejects with the resolver's error; in every other case it resolves with the
  response just received.
\<close>

theorem C3_redirect_followed:
  assumes "URL_new url None = Inr parsedUrl"
    and "transport (build_request cfg url options) w = (Fired [ResponseEnd res], w')"
  shows "makeRequest URL_new cfg transport url options retryCount redirectCount w =
     (if (case statusCode res of None \<Rightarrow> 0 | Some c \<Rightarrow> c) \<in> {301, 302, 303, 307, 308}
         \<and> followRedirects_of options \<and> redirectCount < maxRedirects_of options
         \<and> truthy_location res \<noteq> None
      then (case truthy_location res of
              None \<Rightarrow> (Some (Inr (make_response res)), w', [Request (build_request cfg url options)])
            | Some location \<Rightarrow>
               (case URL_new location (Some url) of
                  Inl e \<Rightarrow>
                    (Some (Inl e), w',
                     [Request (build_request cfg url options),
                      Log_following_redirect (redirectCount + 1) (maxRedirects_of options)
                        url location,
                      Req_destroy])
                | Inr redirectUrl \<Rightarrow>
                    (case makeRequest URL_new cfg transport redirectUrl
                            (redirectOptions res options) retryCount (redirectCount + 1) w' of
                       (result, w'', evs') \<Rightarrow>
                         (result, w'',
                          [Request (build_request cfg url options),
                           Log_following_redirect (redirectCount + 1) (maxRedirects_of options)
                             url location,
                           Req_destroy] @ evs'))))
      else (Some (Inr (make_response res)), w',
            Request (build_request cfg url options)
              # (if (case statusCode res of None \<Rightarrow> 0 | Some c \<Rightarrow> c) \<in> {301, 302, 303, 307, 308}
                     \<and> followRedirects_of options \<and> maxRedirects_of options \<le> redirectCount
                  then [Warn_max_redirects (maxRedirects_of options) url] else [])))"
  unfolding makeRequest_on_end [where URL_new = URL_new and transport = transport, OF assms]
  by (auto simp: on_end_def redirect_statuses_def split: option.splits sum.splits prod.splits)

text \<open>A form post answered by 302 and then by 200.\<close>

theorem C3_redirect_followed_witness:
  "sample_URL_new ''http://a/x'' None = Inr ''http://a/x''
   \<and> redirect_once (found_response ''http://b/y'')
         (build_request sample_defaults ''http://a/x'' post_options) 0
       = (Fired [ResponseEnd (found_response ''http://b/y'')], 1)
   \<and> makeRequest sample_URL_new sample_defaults (redirect_once (found_response ''http://b/y''))
         ''http://a/x'' post_options 0 0 0
       = (Some (Inr (make_response (sample_response 200 ''OK'' [] [''done'']))), 2,
          [Request (build_request sample_defaults ''http://a/x'' post_options),
           Log_following_redirect 1 5 ''http://a/x'' ''http://b/y'',
           Req_destroy,
           Request (build_request sample_defaults ''http://b/y'' post_options)])"
proof -
  have h1: "sample_URL_new ''http://a/x'' None = Inr ''http://a/x''"
    by (simp add: sample_URL_new_def)
  have h2: "redirect_once (found_response ''http://b/y'')
              (build_request sample_defaults ''http://a/x'' post_options) 0
            = (Fired [ResponseEnd (found_response ''http://b/y'')], 1)"
    by (simp add: redirect_once_def)
  have target:
    "makeRequest sample_URL_new sample_defaults (redirect_once (found_response ''http://b/y''))
       ''http://b/y'' post_options 0 1 1
     = (Some (Inr (make_response (sample_response 200 ''OK'' [] [''done'']))), 2,
        [Request (build_request sample_defaults ''http://b/y'' post_options)])"
    by code_simp
  have facts: "statusCode (found_response ''http://b/y'') = Some 302"
    "truthy_location (found_response ''http://b/y'') = Some ''http://b/y''"
    "followRedirects_of post_options" "maxRedirects_of post_options = 5"
    "sample_URL_new ''http://b/y'' (Some ''http://a/x'') = Inr ''http://b/y''"
    "redirectOptions (found_response ''http://b/y'') post_options = post_options"
    by code_simp+
  show ?thesis
    using C3_redirect_followed [where URL_new = sample_URL_new
        and transport = "redirect_once (found_response ''http://b/y'')"
        and cfg = sample_defaults and options = post_options and retryCount = 0
        and redirectCount = 0, OF h1 h2] h1 h2 target facts
    by simp
qed

text \<open>
  Claim C4. When redirects are followed, the status is one of the five redirect statuses
  and \<open>redirectCount\<close> has reached \<open>maxRedirects\<close>, the call does not reject: it warns that the
  limit is exceeded and resolves with the redirect response itself, whose \<open>status\<close> is the
  status received and whose \<open>ok\<close> says whether that status lies in [200, 300). This holds with
  and without a Location header.
\<close>

theorem C4_redirect_limit:
  assumes "URL_new url None = Inr parsedUrl"
    and "transport (build_request cfg url options) w = (Fired [ResponseEnd res], w')"
    and "followRedirects_of options"
    and "statusCode res = Some code"
    and "code \<in> {301, 302, 303, 307, 308}"
    and "maxRedirects_of options \<le> redirectCount"
  shows "makeRequest URL_new cfg transport url options retryCount redirectCount w =
           (Some (Inr (make_response res)), w',
            [Request (build_request cfg url options),
             Warn_max_redirects (maxRedirects_of options) url])
         \<and> status (make_response res) = code
         \<and> ok (make_response res) = (200 \<le> code \<and> code < 300)"
  using assms(3-6)
  unfolding makeRequest_on_end [where URL_new = URL_new and transport = transport, OF assms(1,2)]
  by (auto simp: on_end_def redirect_statuses_def make_response_def)

text \<open>The sixth 302 in a row under the default limit of five redirects.\<close>

theorem C4_redirect_limit_witness:
  "sample_URL_new ''http://b/y'' None = Inr ''http://b/y''
   \<and> always (found_response ''http://b/y'')
         (build_request sample_defaults ''http://b/y'' no_options) 5
       = (Fired [ResponseEnd (found_response ''http://b/y'')], 6)
   \<and> followRedirects_of no_options
   \<and> statusCode (found_response ''http://b/y'') = Some 302
   \<and> (302::int) \<in> {301, 302, 303, 307, 308}
   \<and> maxRedirects_of no_options \<le> 5
   \<and> makeRequest sample_URL_new sample_defaults (always (found_response ''http://b/y''))
         ''http://b/y'' no_options 0 5 5
       = (Some (Inr (make_response (found_response ''http://b/y''))), 6,
          [Request (build_request sample_defaults ''http://b/y'' no_options),
           Warn_max_redirects 5 ''http://b/y''])
   \<and> status (make_response (found_response ''http://b/y'')) = 302
   \<and> \<not> ok (make_response (found_response ''http://b/y''))"
proof -
  have h1: "sample_URL_new ''http://b/y'' None = Inr ''http://b/y''"
    by (simp add: sample_URL_new_def)
  have h2: "always (found_response ''http://b/y'')
              (build_request sample_defaults ''http://b/y'' no_options) 5
            = (Fired [ResponseEnd (found_response ''http://b/y'')], 6)"
    by (simp add: always_def)
  have h3: "followRedirects_of no_options"
    by (simp add: followRedirects_of_def no_options_def DEFAULT_FOLLOW_REDIRECTS_def)
  have h4: "statusCode (found_response ''http://b/y'') = Some 302"
    by (simp add: found_response_def sample_response_def)
  have h5: "(302::int) \<in> {301, 302, 303, 307, 308}"
    by simp
  have h6: "maxRedirects_of no_options \<le> 5"
    by (simp add: maxRedirects_of_def no_options_def DEFAULT_MAX_REDIRECTS_def)
  have limit: "maxRedirects_of no_options = 5"
    by (simp add: maxRedirects_of_def no_options_def DEFAULT_MAX_REDIRECTS_def)
  show ?thesis
    using C4_redirect_limit [where URL_new = sample_URL_new
        and transport = "always (found_response ''http://b/y'')"
        and cfg = sample_defaults and options = no_options and retryCount = 0,
        OF h1 h2 h3 h4 h5 h6] h1 h2 h3 h4 h6 limit
    by simp
qed

subsection \<open>Header case\<close>

text \<open>
  Claim C5. The claim has every entry of the merged headers sent, under its own name when
  that name, lower-cased, starts with \<^verbatim>\<open>cf-access-\<close> and under its lower-cased name otherwise;
  \<open>normalize_headers_names\<close> and \<open>normalize_headers_map\<close> show this for every name but one.
  The code departs from the claim on an entry whose name lower-cases to \<^verbatim>\<open>__proto__\<close>: the
  header loop assigns it to an object literal, the assignment stores nothing, and the
  request goes out without that header. The headers \<^verbatim>\<open>{"__PROTO__": "x", "X-Custom": "1"}\<close>
  are sent as \<^verbatim>\<open>x-custom\<close> alone.
\<close>

theorem C5_proto_header_not_sent:
  "merged_headers sample_defaults
       (no_options\<lparr> opt_headers := Present [(''__PROTO__'', ''x''), (''X-Custom'', ''1'')] \<rparr>)
     = Some [(''__PROTO__'', ''x''), (''X-Custom'', ''1'')]
   \<and> \<not> prefix ''cf-access-'' (toLowerCase ''__PROTO__'')
   \<and> toLowerCase ''__PROTO__'' = ''__proto__''
   \<and> req_headers (build_request sample_defaults ''http://a/x''
        (no_options\<lparr> opt_headers := Present [(''__PROTO__'', ''x''), (''X-Custom'', ''1'')] \<rparr>))
     = [(''x-custom'', ''1'')]"
  by code_simp

subsection \<open>The response object\<close>

text \<open>A call resolves with nothing but the response object built by the \<^verbatim>\<open>end\<close> handler.\<close>

lemma handle_Resolve:
  "handle URL_new cfg url options retryCount redirectCount ev = (evs, Resolve r)
   \<Longrightarrow> \<exists>res. ev = ResponseEnd res \<and> r = make_response res"
  by (cases ev)
     (auto simp: handle_def on_error_def on_end_def
           split: if_splits option.splits sum.splits prod.splits)

lemma makeRequest_Inr:
  "makeRequest URL_new cfg transport url options retryCount redirectCount w
     = (Some (Inr r), w', evs) \<Longrightarrow> \<exists>res. r = make_response res"
  and run_handlers_Inr:
  "run_handlers URL_new cfg transport url options retryCount redirectCount fired w
     = (Some (Inr r), w', evs) \<Longrightarrow> \<exists>res. r = make_response res"
proof (induction URL_new cfg transport url options retryCount redirectCount w
         and URL_new cfg transport url options retryCount redirectCount fired w
       arbitrary: w' evs and w' evs rule: makeRequest_run_handlers.induct)
  case (1 URL_new cfg transport url options retryCount redirectCount w)
  from "1.prems" obtain parsedUrl where url: "URL_new url None = Inr parsedUrl"
    by (subst (asm) makeRequest.simps) (auto split: sum.splits)
  obtain out w1 where tr: "transport (build_request cfg url options) w = (out, w1)"
    by (cases "transport (build_request cfg url options) w")
  with "1.prems" url obtain fired where out: "out = Fired fired"
    by (subst (asm) makeRequest.simps) (auto split: outcome.splits)
  with "1.prems" url tr obtain w2 evs2 where
    "run_handlers URL_new cfg transport url options retryCount redirectCount fired w1
       = (Some (Inr r), w2, evs2)"
    by (subst (asm) makeRequest.simps) (auto split: prod.splits)
  with "1.IH" [OF url tr [symmetric] out] show ?case
    by blast
next
  case (2 URL_new cfg transport url options retryCount redirectCount w)
  then show ?case by simp
next
  case (3 URL_new cfg transport url options retryCount redirectCount ev fired w)
  obtain evs1 dec where h: "handle URL_new cfg url options retryCount redirectCount ev = (evs1, dec)"
    by (cases "handle URL_new cfg url options retryCount redirectCount ev")
  show ?case
  proof (cases dec)
    case (Resolve response)
    with "3.prems" h have "r = response"
      by (auto split: prod.splits)
    with Resolve h handle_Resolve show ?thesis by blast
  next
    case (Reject error)
    with "3.prems" h show ?thesis
      by (auto split: prod.splits)
  next
    case (Recurse url' options' retryCount' redirectCount')
    obtain settled w1 evs2 where chain:
      "makeRequest URL_new cfg transport url' options' retryCount' redirectCount' w
         = (settled, w1, evs2)"
      by (cases "makeRequest URL_new cfg transport url' options' retryCount' redirectCount' w")
    obtain later w2 evs3 where rest:
      "run_handlers URL_new cfg transport url options retryCount redirectCount fired w1
         = (later, w2, evs3)"
      by (cases "run_handlers URL_new cfg transport url options retryCount redirectCount fired w1")
    from "3.prems" h Recurse chain rest have "first_settled settled later = Some (Inr r)"
      by simp
    then consider "settled = Some (Inr r)" | "later = Some (Inr r)"
      by (auto simp: first_settled_def split: option.splits)
    then show ?thesis
    proof cases
      case 1
      with chain "3.IH"(3) [OF h [symmetric] Recurse] show ?thesis by blast
    next
      case 2
      with rest "3.IH"(4) [OF h [symmetric] Recurse chain [symmetric]] show ?thesis
        by blast
    qed
  qed
qed

text \<open>
  Claim C6. Whenever a call resolves, with whatever response after whatever chain of
  retries and redirects, the \<open>ok\<close> field of the result is true exactly when its \<open>status\<close> lies
  in the interval [200, 300).
\<close>

theorem C6_ok_iff_2xx:
  assumes "makeRequest URL_new cfg transport url options retryCount redirectCount w
             = (Some (Inr r), w', evs)"
  shows "ok r \<longleftrightarrow> 200 \<le> status r \<and> status r < 300"
proof -
  from makeRequest_Inr [OF assms] obtain res where "r = make_response res" ..
  then show ?thesis
    by (auto simp: make_response_def split: option.splits)
qed

text \<open>A 404 is not ok, a 204 is.\<close>

theorem C6_ok_iff_2xx_witness:
  "makeRequest sample_URL_new sample_defaults
       (always (sample_response 404 ''Not Found'' [] [''gone''])) ''http://a/x'' no_options 0 0 0
     = (Some (Inr (make_response (sample_response 404 ''Not Found'' [] [''gone'']))), 1,
        [Request (build_request sample_defaults ''http://a/x'' no_options)])
   \<and> status (make_response (sample_response 404 ''Not Found'' [] [''gone''])) = 404
   \<and> \<not> ok (make_response (sample_response 404 ''Not Found'' [] [''gone'']))
   \<and> makeRequest sample_URL_new sample_defaults
       (always (sample_response 204 ''No Content'' [] [])) ''http://a/x'' no_options 0 0 0
     = (Some (Inr (make_response (sample_response 204 ''No Content'' [] []))), 1,
        [Request (build_request sample_defaults ''http://a/x'' no_options)])
   \<and> status (make_response (sample_response 204 ''No Content'' [] [])) = 204
   \<and> ok (make_response (sample_response 204 ''No Content'' [] []))"
proof -
  have not_found:
    "makeRequest sample_URL_new sample_defaults
       (always (sample_response 404 ''Not Found'' [] [''gone''])) ''http://a/x'' no_options 0 0 0
     = (Some (Inr (make_response (sample_response 404 ''Not Found'' [] [''gone'']))), 1,
        [Request (build_request sample_defaults ''http://a/x'' no_options)])"
    by code_simp
  have no_content:
    "makeRequest sample_URL_new sample_defaults
       (always (sample_response 204 ''No Content'' [] [])) ''http://a/x'' no_options 0 0 0
     = (Some (Inr (make_response (sample_response 204 ''No Content'' [] []))), 1,
        [Request (build_request sample_defaults ''http://a/x'' no_options)])"
    by code_simp
  have codes: "status (make_response (sample_response 404 ''Not Found'' [] [''gone''])) = 404"
    "status (make_response (sample_response 204 ''No Content'' [] [])) = 204"
    by (simp_all add: make_response_def sample_response_def)
  show ?thesis
    using C6_ok_iff_2xx [OF not_found] C6_ok_iff_2xx [OF no_content] not_found no_content codes
    by simp
qed

subsection \<open>Responses and the retry budget\<close>

text \<open>
  A completed response does not always resolve the call: a 307 whose Location does not
  resolve against the current URL is a completed response, and the call rejects with the
  error of the URL constructor.
\<close>

theorem C7_counterexample:
  "always (sample_response 307 ''Temporary Redirect'' [(''location'', HString ''http://'')] [])
       (build_request sample_defaults ''http://a/x'' post_options) 0
     = (Fired [ResponseEnd (sample_response 307 ''Temporary Redirect''
                              [(''location'', HString ''http://'')] [])], 1)
   \<and> makeRequest sample_URL_new sample_defaults
        (always (sample_response 307 ''Temporary Redirect''
                   [(''location'', HString ''http://'')] []))
        ''http://a/x'' post_options 0 0 0
     = (Some (Inl (JsError ''TypeError'' ''Invalid URL'' (Some ''ERR_INVALID_URL''))), 1,
        [Request (build_request sample_defaults ''http://a/x'' post_options),
         Log_following_redirect 1 5 ''http://a/x'' ''http://'', Req_destroy])"
  by code_simp

text \<open>
  Claim C7, amended. A completed response never starts a retry and never uses the retry
  budget, whatever its status. When it is not a redirect to follow (its status is not one
  of the five redirect statuses, as for every 4xx and 5xx, or redirects are switched off or
  used up, or it has no Location to go to), the call resolves at once with the response
  object of that status, with no warning of a retry and no sleep. When it is a redirect to
  follow and its Location resolves, the call continues at the target with the \<open>retryCount\<close>
  it had. When its Location does not resolve, the call rejects with the resolver's error.
\<close>

theorem C7_response_never_retries:
  assumes "URL_new url None = Inr parsedUrl"
    and "transport (build_request cfg url options) w = (Fired [ResponseEnd res], w')"
  shows
    "(\<not> ((case statusCode res of None \<Rightarrow> 0 | Some c \<Rightarrow> c) \<in> {301, 302, 303, 307, 308}
         \<and> followRedirects_of options \<and> redirectCount < maxRedirects_of options
         \<and> truthy_location res \<noteq> None) \<longrightarrow>
        makeRequest URL_new cfg transport url options retryCount redirectCount w
          = (Some (Inr (make_response res)), w',
             Request (build_request cfg url options)
               # (if (case statusCode res of None \<Rightarrow> 0 | Some c \<Rightarrow> c)
                        \<in> {301, 302, 303, 307, 308}
                      \<and> followRedirects_of options \<and> maxRedirects_of options \<le> redirectCount
                   then [Warn_max_redirects (maxRedirects_of options) url] else []))
        \<and> status (make_response res) = (case statusCode res of None \<Rightarrow> 0 | Some c \<Rightarrow> c))
     \<and> (\<forall>location redirectUrl.
          (case statusCode res of None \<Rightarrow> 0 | Some c \<Rightarrow> c) \<in> {301, 302, 303, 307, 308}
          \<and> followRedirects_of options \<and> redirectCount < maxRedirects_of options
          \<and> truthy_location res = Some location
          \<and> URL_new location (Some url) = Inr redirectUrl \<longrightarrow>
            makeRequest URL_new cfg transport url options retryCount redirectCount w
              = (case makeRequest URL_new cfg transport redirectUrl
                        (redirectOptions res options) retryCount (redirectCount + 1) w' of
                   (result, w'', evs') \<Rightarrow>
                     (result, w'',
                      [Request (build_request cfg url options),
                       Log_following_redirect (redirectCount + 1) (maxRedirects_of options)
                         url location,
                       Req_destroy] @ evs')))
     \<and> (\<forall>location error.
          (case statusCode res of None \<Rightarrow> 0 | Some c \<Rightarrow> c) \<in> {301, 302, 303, 307, 308}
          \<and> followRedirects_of options \<and> redirectCount < maxRedirects_of options
          \<and> truthy_location res = Some location
          \<and> URL_new location (Some url) = Inl error \<longrightarrow>
            makeRequest URL_new cfg transport url options retryCount redirectCount w
              = (Some (Inl error), w',
                 [Request (build_request cfg url options),
                  Log_following_redirect (redirectCount + 1) (maxRedirects_of options)
                    url location,
                  Req_destroy]))"
  unfolding makeRequest_on_end [where URL_new = URL_new and transport = transport, OF assms]
  by (auto simp: on_end_def redirect_statuses_def make_response_def
           split: option.splits sum.splits prod.splits)

text \<open>A 503 under the default budget of three retries, and a 302 followed to a 200.\<close>

theorem C7_response_never_retries_witness:
  "sample_URL_new ''http://a/x'' None = Inr ''http://a/x''
   \<and> always (sample_response 503 ''Service Unavailable'' [] [''busy''])
         (build_request sample_defaults ''http://a/x'' no_options) 0
       = (Fired [ResponseEnd (sample_response 503 ''Service Unavailable'' [] [''busy''])], 1)
   \<and> makeRequest sample_URL_new sample_defaults
         (always (sample_response 503 ''Service Unavailable'' [] [''busy'']))
         ''http://a/x'' no_options 0 0 0
       = (Some (Inr (make_response (sample_response 503 ''Service Unavailable'' [] [''busy'']))),
          1, [Request (build_request sample_defaults ''http://a/x'' no_options)])
   \<and> status (make_response (sample_response 503 ''Service Unavailable'' [] [''busy''])) = 503
   \<and> redirect_once (found_response ''http://b/y'')
         (build_request sample_defaults ''http://a/x'' no_options) 0
       = (Fired [ResponseEnd (found_response ''http://b/y'')], 1)
   \<and> truthy_location (found_response ''http://b/y'') = Some ''http://b/y''
   \<and> sample_URL_new ''http://b/y'' (Some ''http://a/x'') = Inr ''http://b/y''
   \<and> makeRequest sample_URL_new sample_defaults (redirect_once (found_response ''http://b/y''))
         ''http://a/x'' no_options 0 0 0
       = (Some (Inr (make_response (sample_response 200 ''OK'' [] [''done'']))), 2,
          [Request (build_request sample_defaults ''http://a/x'' no_options),
           Log_following_redirect 1 5 ''http://a/x'' ''http://b/y'',
           Req_destroy,
           Request (build_request sample_defaults ''http://b/y'' no_options)])"
proof -
  have h1: "sample_URL_new ''http://a/x'' None = Inr ''http://a/x''"
    by (simp add: sample_URL_new_def)
  have busy: "always (sample_response 503 ''Service Unavailable'' [] [''busy''])
              (build_request sample_defaults ''http://a/x'' no_options) 0
            = (Fired [ResponseEnd (sample_response 503 ''Service Unavailable'' [] [''busy''])], 1)"
    by (simp add: always_def)
  have code: "statusCode (sample_response 503 ''Service Unavailable'' [] [''busy'']) = Some 503"
    by (simp add: sample_response_def)
  from C7_response_never_retries [where URL_new = sample_URL_new
        and transport = "always (sample_response 503 ''Service Unavailable'' [] [''busy''])"
        and cfg = sample_defaults and options = no_options and retryCount = 0
        and redirectCount = 0, OF h1 busy, THEN conjunct1] code
  have terminal: "makeRequest sample_URL_new sample_defaults
         (always (sample_response 503 ''Service Unavailable'' [] [''busy'']))
         ''http://a/x'' no_options 0 0 0
       = (Some (Inr (make_response (sample_response 503 ''Service Unavailable'' [] [''busy'']))),
          1, [Request (build_request sample_defaults ''http://a/x'' no_options)])
     \<and> status (make_response (sample_response 503 ''Service Unavailable'' [] [''busy''])) = 503"
    by simp
  have found: "redirect_once (found_response ''http://b/y'')
              (build_request sample_defaults ''http://a/x'' no_options) 0
            = (Fired [ResponseEnd (found_response ''http://b/y'')], 1)"
    by (simp add: redirect_once_def)
  have facts: "statusCode (found_response ''http://b/y'') = Some 302"
    "truthy_location (found_response ''http://b/y'') = Some ''http://b/y''"
    "followRedirects_of no_options" "maxRedirects_of no_options = 5"
    "sample_URL_new ''http://b/y'' (Some ''http://a/x'') = Inr ''http://b/y''"
    "redirectOptions (found_response ''http://b/y'') no_options = no_options"
    by code_simp+
  have target:
    "makeRequest sample_URL_new sample_defaults (redirect_once (found_response ''http://b/y''))
       ''http://b/y'' no_options 0 1 1
     = (Some (Inr (make_response (sample_response 200 ''OK'' [] [''done'']))), 2,
        [Request (build_request sample_defaults ''http://b/y'' no_options)])"
    by code_simp
  from C7_response_never_retries [where URL_new = sample_URL_new
        and transport = "redirect_once (found_response ''http://b/y'')"
        and cfg = sample_defaults and options = no_options and retryCount = 0
        and redirectCount = 0, OF h1 found, THEN conjunct2, THEN conjunct1,
        rule_format, of "''http://b/y''" "''http://b/y''"] facts target
  have followed:
    "makeRequest sample_URL_new sample_defaults (redirect_once (found_response ''http://b/y''))
         ''http://a/x'' no_options 0 0 0
       = (Some (Inr (make_response (sample_response 200 ''OK'' [] [''done'']))), 2,
          [Request (build_request sample_defaults ''http://a/x'' no_options),
           Log_following_redirect 1 5 ''http://a/x'' ''http://b/y'',
           Req_destroy,
           Request (build_request sample_defaults ''http://b/y'' no_options)])"
    by simp
  from h1 busy terminal found facts(2,5) followed show ?thesis
    by blast
qed

subsection \<open>Body accessors\<close>

text \<open>
  Claim C8. A terminal response resolves the call whatever its body is: \<^verbatim>\<open>makeRequest\<close> does
  not take the JSON parser at all, and the text accessor returns the decoded body. The JSON
  accessor is where a body that does not parse fails: it returns the error named
  \<^verbatim>\<open>Error\<close> with the message \<^verbatim>\<open>Failed to parse JSON: \<close> followed by the parser's message, an
  error without a transport code; on a body that parses, it returns the parsed value.
\<close>

theorem C8_json_error_on_access:
  assumes "URL_new url None = Inr parsedUrl"
    and "transport (build_request cfg url options) w = (Fired [ResponseEnd res], w')"
    and "on_end URL_new url options retryCount redirectCount res = (evs, Resolve r)"
  shows "makeRequest URL_new cfg transport url options retryCount redirectCount w
           = (Some (Inr r), w', Request (build_request cfg url options) # evs)
       \<and> text_accessor decode r = decode (concat (chunks res))
       \<and> (\<forall>t. JSON_parse (decode (concat (chunks res))) = Inl t \<longrightarrow>
              json_accessor decode JSON_parse r
                = Inl (JsError ''Error''
                        (''Failed to parse JSON: ''
                           @ (case t of ThrownError e \<Rightarrow> err_message e
                                      | ThrownOther \<Rightarrow> ''Unknown error''))
                        None))
       \<and> (\<forall>v. JSON_parse (decode (concat (chunks res))) = Inr v \<longrightarrow>
              json_accessor decode JSON_parse r = Inr v)"
proof -
  from assms(3) have r: "r = make_response res"
    by (auto simp: on_end_def split: if_splits option.splits sum.splits)
  have "makeRequest URL_new cfg transport url options retryCount redirectCount w
          = (Some (Inr r), w', Request (build_request cfg url options) # evs)"
    unfolding makeRequest_on_end [where URL_new = URL_new and transport = transport,
                                  OF assms(1,2)]
    by (simp add: assms(3))
  then show ?thesis
    by (simp add: r make_response_def text_accessor_def json_accessor_def parse_failure_def)
qed

text \<open>An HTML page fetched with status 200, then read as text and as JSON.\<close>

theorem C8_json_error_on_access_witness:
  "sample_URL_new ''http://a/x'' None = Inr ''http://a/x''
   \<and> always (sample_response 200 ''OK'' [] [''<html>''])
         (build_request sample_defaults ''http://a/x'' no_options) 0
       = (Fired [ResponseEnd (sample_response 200 ''OK'' [] [''<html>''])], 1)
   \<and> on_end sample_URL_new ''http://a/x'' no_options 0 0
         (sample_response 200 ''OK'' [] [''<html>''])
       = ([], Resolve (make_response (sample_response 200 ''OK'' [] [''<html>''])))
   \<and> sample_JSON_parse ''<html>''
       = Inl (ThrownError (JsError ''SyntaxError'' ''Unexpected token'' None))
   \<and> makeRequest sample_URL_new sample_defaults
         (always (sample_response 200 ''OK'' [] [''<html>''])) ''http://a/x'' no_options 0 0 0
       = (Some (Inr (make_response (sample_response 200 ''OK'' [] [''<html>'']))), 1,
          [Request (build_request sample_defaults ''http://a/x'' no_options)])
   \<and> text_accessor (\<lambda>s. s) (make_response (sample_response 200 ''OK'' [] [''<html>'']))
       = ''<html>''
   \<and> json_accessor (\<lambda>s. s) sample_JSON_parse
         (make_response (sample_response 200 ''OK'' [] [''<html>'']))
       = Inl (JsError ''Error'' ''Failed to parse JSON: Unexpected token'' None)"
proof -
  have h1: "sample_URL_new ''http://a/x'' None = Inr ''http://a/x''"
    by (simp add: sample_URL_new_def)
  have h2: "always (sample_response 200 ''OK'' [] [''<html>''])
              (build_request sample_defaults ''http://a/x'' no_options) 0
            = (Fired [ResponseEnd (sample_response 200 ''OK'' [] [''<html>''])], 1)"
    by (simp add: always_def)
  have h3: "on_end sample_URL_new ''http://a/x'' no_options 0 0
              (sample_response 200 ''OK'' [] [''<html>''])
            = ([], Resolve (make_response (sample_response 200 ''OK'' [] [''<html>''])))"
    by (simp add: on_end_def sample_response_def redirect_statuses_def)
  have body: "concat (chunks (sample_response 200 ''OK'' [] [''<html>''])) = ''<html>''"
    by (simp add: sample_response_def)
  have bad: "sample_JSON_parse ''<html>''
               = Inl (ThrownError (JsError ''SyntaxError'' ''Unexpected token'' None))"
    by (simp add: sample_JSON_parse_def)
  show ?thesis
    using C8_json_error_on_access [where URL_new = sample_URL_new
        and transport = "always (sample_response 200 ''OK'' [] [''<html>''])"
        and cfg = sample_defaults and options = no_options and retryCount = 0
        and redirectCount = 0 and decode = "\<lambda>s. s" and JSON_parse = sample_JSON_parse,
        OF h1 h2 h3] h1 h2 h3 body bad
    by simp
qed

subsection \<open>The accessors over the store\<close>

text \<open>What each action returns when the window still shows the bytes \<open>body\<close>.\<close>

lemma act_keeps_body:
  assumes "view_buffer b < length st"
    and "\<forall>a \<in> set handed. a \<noteq> view_buffer b"
    and "act decode JSON_parse b a (st, handed) = (v, st', handed')"
  shows "view_buffer b < length st'
       \<and> (\<forall>a \<in> set handed'. a \<noteq> view_buffer b)
       \<and> view_bytes st' b = view_bytes st b
       \<and> v = (case a of
                Call_text \<Rightarrow> Text_value (decode (view_bytes st b))
              | Call_json \<Rightarrow>
                  Json_value
                    (case JSON_parse (decode (view_bytes st b)) of
                       Inr x \<Rightarrow> Inr x
                     | Inl t \<Rightarrow> Inl (parse_failure t))
              | Call_arrayBuffer \<Rightarrow> Buffer_value (view_bytes st b)
              | Write k i c \<Rightarrow> Written)"
proof (cases a)
  case Call_text
  with assms show ?thesis by (auto simp: act_def)
next
  case Call_json
  with assms show ?thesis by (auto simp: act_def)
next
  case Call_arrayBuffer
  with assms show ?thesis
    by (auto simp: act_def arrayBuffer_def slice_def view_bytes_def buffer_at_def nth_append)
next
  case (Write k i c)
  show ?thesis
  proof (cases "k < length handed")
    case True
    with assms(2) have "handed ! k \<noteq> view_buffer b" by simp
    with True Write assms show ?thesis
      by (auto simp: act_def view_bytes_def buffer_at_def)
  next
    case False
    with Write assms show ?thesis by (auto simp: act_def)
  qed
qed

lemma acts_keep_body:
  assumes "view_buffer b < length st"
    and "\<forall>a \<in> set handed. a \<noteq> view_buffer b"
  shows "fst (acts decode JSON_parse b actions (st, handed))
           = map (\<lambda>a. case a of
                    Call_text \<Rightarrow> Text_value (decode (view_bytes st b))
                  | Call_json \<Rightarrow>
                      Json_value
                        (case JSON_parse (decode (view_bytes st b)) of
                           Inr x \<Rightarrow> Inr x
                         | Inl t \<Rightarrow> Inl (parse_failure t))
                  | Call_arrayBuffer \<Rightarrow> Buffer_value (view_bytes st b)
                  | Write k i c \<Rightarrow> Written) actions
       \<and> view_bytes (fst (snd (acts decode JSON_parse b actions (st, handed)))) b
           = view_bytes st b"
  using assms
proof (induction actions arbitrary: st handed)
  case Nil
  then show ?case by simp
next
  case (Cons a actions)
  obtain v st' handed' where step: "act decode JSON_parse b a (st, handed) = (v, st', handed')"
    by (cases "act decode JSON_parse b a (st, handed)")
  note kept = act_keeps_body [OF Cons.prems step]
  from kept have inv: "view_buffer b < length st'" "\<forall>a \<in> set handed'. a \<noteq> view_buffer b"
    and same: "view_bytes st' b = view_bytes st b"
    by simp_all
  from kept have returned: "v = (case a of
                Call_text \<Rightarrow> Text_value (decode (view_bytes st b))
              | Call_json \<Rightarrow>
                  Json_value
                    (case JSON_parse (decode (view_bytes st b)) of
                       Inr x \<Rightarrow> Inr x
                     | Inl t \<Rightarrow> Inl (parse_failure t))
              | Call_arrayBuffer \<Rightarrow> Buffer_value (view_bytes st b)
              | Write k i c \<Rightarrow> Written)"
    by simp
  obtain vs s'' where rest: "acts decode JSON_parse b actions (st', handed') = (vs, s'')"
    by (cases "acts decode JSON_parse b actions (st', handed')")
  from Cons.IH [OF inv, unfolded same] rest
  have "vs = map (\<lambda>a. case a of
                    Call_text \<Rightarrow> Text_value (decode (view_bytes st b))
                  | Call_json \<Rightarrow>
                      Json_value
                        (case JSON_parse (decode (view_bytes st b)) of
                           Inr x \<Rightarrow> Inr x
                         | Inl t \<Rightarrow> Inl (parse_failure t))
                  | Call_arrayBuffer \<Rightarrow> Buffer_value (view_bytes st b)
                  | Write k i c \<Rightarrow> Written) actions"
    and "view_bytes (fst s'') b = view_bytes st b"
    by simp_all
  with step rest returned show ?case
    by simp
qed

text \<open>
  Claim C9. Let the Buffer of the response hold the chunks received, concatenated, as
  \<^verbatim>\<open>Buffer.concat\<close> leaves it when the response ends. Then whatever the holder of the response
  object does, in any order and any number of times (calling the text, the JSON and the
  byte accessor, writing into the ArrayBuffers that the byte accessor has handed out), every
  text call returns the decoded body, every JSON call the parse of that same text or the
  parse failure, every byte call a buffer with the bytes of the body, and the Buffer of the
  response holds the body as before: the byte accessor hands out copies, and nothing reads
  the body away. These are the values of \<open>text_accessor\<close> and \<open>json_accessor\<close> on the response
  object.
\<close>

theorem C9_accessors_repeatable:
  assumes "view_buffer b < length st"
    and "view_bytes st b = concat (chunks res)"
  shows "fst (acts decode JSON_parse b actions (st, []))
           = map (\<lambda>a. case a of
                    Call_text \<Rightarrow> Text_value (text_accessor decode (make_response res))
                  | Call_json \<Rightarrow>
                      Json_value (json_accessor decode JSON_parse (make_response res))
                  | Call_arrayBuffer \<Rightarrow> Buffer_value (concat (chunks res))
                  | Write k i c \<Rightarrow> Written) actions
       \<and> view_bytes (fst (snd (acts decode JSON_parse b actions (st, [])))) b
           = concat (chunks res)"
  using acts_keep_body [where b = b and st = st and handed = "[]" and decode = decode
      and JSON_parse = JSON_parse and actions = actions] assms
  by (simp add: text_accessor_def json_accessor_def make_response_def split: action.splits)

text \<open>
  The body \<^verbatim>\<open>{"a":1}\<close>, received in two chunks and held in a pooled Buffer: the text accessor
  returns the string \<^verbatim>\<open>{"a":1}\<close> and the JSON accessor the object with the member \<^verbatim>\<open>a\<close> of
  value 1, before and after the caller overwrites a byte of a buffer it was handed.
\<close>

theorem C9_accessors_repeatable_witness:
  \<open>view_buffer \<lparr> view_buffer = 0, byteOffset = 4, byteLength = 7 \<rparr> < length [''pool{"a":1}pool'']
   \<and> view_bytes [''pool{"a":1}pool''] \<lparr> view_buffer = 0, byteOffset = 4, byteLength = 7 \<rparr>
       = concat (chunks (sample_response 200 ''OK'' [] [''{"a"'', '':1}'']))
   \<and> fst (acts (\<lambda>s. s) sample_JSON_parse \<lparr> view_buffer = 0, byteOffset = 4, byteLength = 7 \<rparr>
             [Call_json, Call_arrayBuffer, Write 0 0 (CHR ''X''), Call_text, Call_json,
              Call_arrayBuffer, Call_text]
             ([''pool{"a":1}pool''], []))
       = [Json_value (Inr (JObject [(''a'', JNumber 1)])), Buffer_value ''{"a":1}'', Written,
          Text_value ''{"a":1}'', Json_value (Inr (JObject [(''a'', JNumber 1)])),
          Buffer_value ''{"a":1}'', Text_value ''{"a":1}'']\<close>
proof -
  have allocated:
    \<open>view_buffer \<lparr> view_buffer = 0, byteOffset = 4, byteLength = 7 \<rparr>
       < length [''pool{"a":1}pool'']\<close>
    by simp
  have holds:
    \<open>view_bytes [''pool{"a":1}pool''] \<lparr> view_buffer = 0, byteOffset = 4, byteLength = 7 \<rparr>
       = concat (chunks (sample_response 200 ''OK'' [] [''{"a"'', '':1}'']))\<close>
    by (simp add: view_bytes_def buffer_at_def sample_response_def)
  have expected:
    \<open>text_accessor (\<lambda>s. s) (make_response (sample_response 200 ''OK'' [] [''{"a"'', '':1}'']))
       = ''{"a":1}''\<close>
    \<open>json_accessor (\<lambda>s. s) sample_JSON_parse
         (make_response (sample_response 200 ''OK'' [] [''{"a"'', '':1}'']))
       = Inr (JObject [(''a'', JNumber 1)])\<close>
    \<open>concat (chunks (sample_response 200 ''OK'' [] [''{"a"'', '':1}''])) = ''{"a":1}''\<close>
    by (simp_all add: text_accessor_def json_accessor_def make_response_def
                      sample_response_def sample_JSON_parse_def)
  from C9_accessors_repeatable [OF allocated holds, where decode = "\<lambda>s. s"
      and JSON_parse = sample_JSON_parse
      and actions = "[Call_json, Call_arrayBuffer, Write 0 0 (CHR ''X''), Call_text, Call_json,
                      Call_arrayBuffer, Call_text]", THEN conjunct1]
  have \<open>fst (acts (\<lambda>s. s) sample_JSON_parse \<lparr> view_buffer = 0, byteOffset = 4, byteLength = 7 \<rparr>
             [Call_json, Call_arrayBuffer, Write 0 0 (CHR ''X''), Call_text, Call_json,
              Call_arrayBuffer, Call_text]
             ([''pool{"a":1}pool''], []))
       = [Json_value (Inr (JObject [(''a'', JNumber 1)])), Buffer_value ''{"a":1}'', Written,
          Text_value ''{"a":1}'', Json_value (Inr (JObject [(''a'', JNumber 1)])),
          Buffer_value ''{"a":1}'', Text_value ''{"a":1}'']\<close>
    unfolding expected by simp
  with allocated holds show ?thesis by blast
qed

text \<open>
  A response without a status code does not force an empty status text: the text is the
  status message, which the response object reads on its own.
\<close>

theorem C10_counterexample:
  "statusCode \<lparr> statusCode = None, statusMessage = Some ''OK'', res_headers = [], chunks = [] \<rparr>
     = None
   \<and> statusText (make_response
        \<lparr> statusCode = None, statusMessage = Some ''OK'', res_headers = [], chunks = [] \<rparr>)
     = ''OK''
   \<and> ''OK'' \<noteq> ''''"
  by (simp add: make_response_def)

text \<open>
  Claim C10, amended. When the response has no status code, the call resolves at once with
  a response object of status 0 and \<open>ok\<close> false, whose \<open>statusText\<close> is the status message of
  the response, and the empty string when the response has no status message either.
\<close>

theorem C10_absent_status_code:
  assumes "URL_new url None = Inr parsedUrl"
    and "transport (build_request cfg url options) w = (Fired [ResponseEnd res], w')"
    and "statusCode res = None"
  shows "makeRequest URL_new cfg transport url options retryCount redirectCount w
           = (Some (Inr (make_response res)), w', [Request (build_request cfg url options)])
       \<and> status (make_response res) = 0
       \<and> \<not> ok (make_response res)
       \<and> statusText (make_response res) = (case statusMessage res of None \<Rightarrow> [] | Some m \<Rightarrow> m)"
  using assms(3)
  unfolding makeRequest_on_end [where URL_new = URL_new and transport = transport, OF assms(1,2)]
  by (simp add: on_end_def redirect_statuses_def make_response_def)

text \<open>A response with neither status code nor status message.\<close>

theorem C10_absent_status_code_witness:
  "sample_URL_new ''http://a/x'' None = Inr ''http://a/x''
   \<and> always \<lparr> statusCode = None, statusMessage = None, res_headers = [], chunks = [''x''] \<rparr>
        (build_request sample_defaults ''http://a/x'' no_options) 0
       = (Fired [ResponseEnd
            \<lparr> statusCode = None, statusMessage = None, res_headers = [], chunks = [''x''] \<rparr>], 1)
   \<and> makeRequest sample_URL_new sample_defaults
        (always \<lparr> statusCode = None, statusMessage = None, res_headers = [], chunks = [''x''] \<rparr>)
        ''http://a/x'' no_options 0 0 0
       = (Some (Inr \<lparr> ok = False, status = 0, statusText = [], headers = [],
                     responseBody = ''x'' \<rparr>),
          1, [Request (build_request sample_defaults ''http://a/x'' no_options)])"
proof -
  have h1: "sample_URL_new ''http://a/x'' None = Inr ''http://a/x''"
    by (simp add: sample_URL_new_def)
  have h2: "always \<lparr> statusCode = None, statusMessage = None, res_headers = [], chunks = [''x''] \<rparr>
              (build_request sample_defaults ''http://a/x'' no_options) 0
            = (Fired [ResponseEnd
                 \<lparr> statusCode = None, statusMessage = None, res_headers = [],
                   chunks = [''x''] \<rparr>], 1)"
    by (simp add: always_def)
  have h3: "statusCode
              \<lparr> statusCode = None, statusMessage = None, res_headers = [], chunks = [''x''] \<rparr>
            = None"
    by simp
  show ?thesis
    using C10_absent_status_code [where URL_new = sample_URL_new
        and transport = "always \<lparr> statusCode = None, statusMessage = None, res_headers = [],
                                   chunks = [''x''] \<rparr>"
        and cfg = sample_defaults and options = no_options and retryCount = 0
        and redirectCount = 0, OF h1 h2 h3] h1 h2
    by (simp add: make_response_def)
qed

end
